theory Spec2Isabelle
  imports Main
begin

section \<open>The Flumio launcher: bootstrap orchestration\<close>

text \<open>
  The main process of the launcher (\<^verbatim>\<open>src/main.ts\<close>) and the install helper
  (\<^verbatim>\<open>src/dockerInstallHelper.ts\<close>) are embedded as functions over an explicit
  \<open>world\<close>: the module-level variable \<open>mainWindow\<close>, the windows Electron holds, what
  each window shows, the listeners registered, and a log of every call made to a
  collaborator. The answers of the collaborators are not computed by the program; they are
  part of the world, one queue per collaborator, consumed in call order.
\<close>

subsection \<open>Values\<close>

text \<open>
  Modelled from the spec: the declaration of the status type returned by \<open>startStack\<close>
  lives in \<^verbatim>\<open>./dockerManager\<close>, which is not among the sources. The three literals that
  \<open>bootstrapApp\<close> compares against are constructors of their own; the spec's fourth value
  \<open>Ready\<close> is the one that falls through every comparison.
\<close>

datatype RuntimeStatus = docker_missing | docker_daemon_off | compose_error | Ready

text \<open>\<^verbatim>\<open>type InstallAction = "retry" | "quit"\<close>\<close>

datatype InstallAction = retry | quit

text \<open>
  What a promise of a collaborator does: it resolves with a value or rejects with an error
  (errors are kept as their text).
\<close>

datatype 'a reply = Resolves 'a | Rejects string

text \<open>
  What an \<^verbatim>\<open>await\<close> sees: the value, the exception, or nothing at all when the promise is
  never settled (a dialog nobody answers); then the async function stays suspended.
\<close>

datatype 'a settled = Done 'a | Thrown string | Pending

text \<open>What a window can be asked to load: the inline placeholder page, or a URL.\<close>

datatype page = SplashPage | Url string

text \<open>The options object handed to \<^verbatim>\<open>dialog.showMessageBox\<close>.\<close>

record boxOptions =
  boxType :: string
  title :: string
  message :: string
  detail :: "string option"
  buttons :: "string list"
  defaultId :: nat
  cancelId :: nat

text \<open>Calls that leave the program, in the order they are made.\<close>

datatype event =
    NewBrowserWindow nat
  | LoadURL nat page
  | StartStack
  | ShowMessageBox boxOptions
  | OpenExternal string
  | ShowErrorBox string string
  | WaitForHttpReady string
  | OnClosed nat
  | ConsoleError string string
  | AppQuit

subsection \<open>The world\<close>

record world =
  mainWindow :: "nat option"
  created :: nat
  openWindows :: "nat list"
  shown :: "nat \<rightharpoonup> page"
  closedHooks :: "nat list"
  quitting :: bool
  log :: "event list"
  platformName :: string
  loadReplies :: "unit reply list"
  stackReplies :: "RuntimeStatus reply list"
  boxReplies :: "nat reply list"
  externalReplies :: "unit reply list"
  readyReplies :: "bool reply list"

definition emit :: "event \<Rightarrow> world \<Rightarrow> world" where
  "emit e w = w\<lparr>log := log w @ [e]\<rparr>"

text \<open>Taking the next answer of a collaborator off its queue.\<close>

definition settle :: "'a reply list \<Rightarrow> 'a settled \<times> 'a reply list" where
  "settle q =
     (case q of
        [] \<Rightarrow> (Pending, [])
      | Resolves v # rest \<Rightarrow> (Done v, rest)
      | Rejects e # rest \<Rightarrow> (Thrown e, rest))"

subsection \<open>Electron and the collaborators\<close>

text \<open>\<^verbatim>\<open>new BrowserWindow({...})\<close>: a fresh window, numbered in creation order.\<close>

definition newBrowserWindow :: "world \<Rightarrow> nat \<times> world" where
  "newBrowserWindow w =
     (let i = created w
      in (i, emit (NewBrowserWindow i)
               (w\<lparr>created := Suc i, openWindows := openWindows w @ [i]\<rparr>)))"

text \<open>\<^verbatim>\<open>win.loadURL(p)\<close>: the window shows the page once the promise resolves.\<close>

definition loadURL :: "nat \<Rightarrow> page \<Rightarrow> world \<Rightarrow> unit settled \<times> world" where
  "loadURL i p w =
     (let w1 = emit (LoadURL i p) w
      in case settle (loadReplies w1) of
           (Done u, rest) \<Rightarrow> (Done u, w1\<lparr>loadReplies := rest, shown := (shown w1)(i \<mapsto> p)\<rparr>)
         | (Thrown e, rest) \<Rightarrow> (Thrown e, w1\<lparr>loadReplies := rest\<rparr>)
         | (Pending, rest) \<Rightarrow> (Pending, w1\<lparr>loadReplies := rest\<rparr>))"

text \<open>
  \<^verbatim>\<open>mainWindow.loadURL(p)\<close> reads the module-level variable; on \<^verbatim>\<open>null\<close> the member access
  throws.
\<close>

definition mainWindow_loadURL :: "page \<Rightarrow> world \<Rightarrow> unit settled \<times> world" where
  "mainWindow_loadURL p w =
     (case mainWindow w of
        None \<Rightarrow> (Thrown ''TypeError'', w)
      | Some i \<Rightarrow> loadURL i p w)"

text \<open>
  \<^verbatim>\<open>mainWindow.on("closed", () => { mainWindow = null; })\<close>: the listener is registered on
  the window the variable refers to at that moment.
\<close>

definition mainWindow_onClosed :: "world \<Rightarrow> unit settled \<times> world" where
  "mainWindow_onClosed w =
     (case mainWindow w of
        None \<Rightarrow> (Thrown ''TypeError'', w)
      | Some i \<Rightarrow> (Done (), emit (OnClosed i) (w\<lparr>closedHooks := closedHooks w @ [i]\<rparr>)))"

text \<open>
  Modelled from the spec: \<open>startStack\<close> and \<open>waitForHttpReady\<close> are defined in
  \<^verbatim>\<open>./dockerManager\<close>, which is not among the sources. Only their interface is used: each
  call of the first yields one status, each call of the second a boolean, and either may
  throw. The answers are taken from the world.
\<close>

definition startStack :: "world \<Rightarrow> RuntimeStatus settled \<times> world" where
  "startStack w =
     (let w1 = emit StartStack w
      in case settle (stackReplies w1) of (r, rest) \<Rightarrow> (r, w1\<lparr>stackReplies := rest\<rparr>))"

definition waitForHttpReady :: "string \<Rightarrow> world \<Rightarrow> bool settled \<times> world" where
  "waitForHttpReady url w =
     (let w1 = emit (WaitForHttpReady url) w
      in case settle (readyReplies w1) of (r, rest) \<Rightarrow> (r, w1\<lparr>readyReplies := rest\<rparr>))"

text \<open>\<^verbatim>\<open>dialog.showMessageBox(opts)\<close> resolves with the index of the button pressed.\<close>

definition showMessageBox :: "boxOptions \<Rightarrow> world \<Rightarrow> nat settled \<times> world" where
  "showMessageBox opts w =
     (let w1 = emit (ShowMessageBox opts) w
      in case settle (boxReplies w1) of (r, rest) \<Rightarrow> (r, w1\<lparr>boxReplies := rest\<rparr>))"

definition showErrorBox :: "string \<Rightarrow> string \<Rightarrow> world \<Rightarrow> world" where
  "showErrorBox t c w = emit (ShowErrorBox t c) w"

definition openExternal :: "string \<Rightarrow> world \<Rightarrow> unit settled \<times> world" where
  "openExternal url w =
     (let w1 = emit (OpenExternal url) w
      in case settle (externalReplies w1) of (r, rest) \<Rightarrow> (r, w1\<lparr>externalReplies := rest\<rparr>))"

definition consoleError :: "string \<Rightarrow> string \<Rightarrow> world \<Rightarrow> world" where
  "consoleError label err w = emit (ConsoleError label err) w"

text \<open>\<^verbatim>\<open>app.quit()\<close> asks the process to exit; the caller goes on to its \<^verbatim>\<open>return\<close>.\<close>

definition appQuit :: "world \<Rightarrow> world" where
  "appQuit w = emit AppQuit (w\<lparr>quitting := True\<rparr>)"

subsection \<open>dockerInstallHelper.ts\<close>

definition getDockerDownloadUrl :: string where
  "getDockerDownloadUrl = ''https://www.docker.com/products/docker-desktop/''"

definition missingMessage :: "string \<Rightarrow> string" where
  "missingMessage platform =
     (if platform = ''darwin''
      then ''Docker Desktop is not installed or not available.'' @ [CHR 0x0A, CHR 0x0A] @
           ''You need Docker Desktop for Mac to run Flumio Desktop.''
      else if platform = ''win32''
      then ''Docker Desktop is not installed or not available.'' @ [CHR 0x0A, CHR 0x0A] @
           ''You need Docker Desktop for Windows to run Flumio Desktop.''
      else ''Docker is not installed or not available.'' @ [CHR 0x0A, CHR 0x0A] @
           ''You need Docker Engine or Docker Desktop to run Flumio Desktop.'')"

definition missingBox :: "string \<Rightarrow> boxOptions" where
  "missingBox platform =
     \<lparr>boxType = ''error'', title = ''Docker is not installed'',
      message = missingMessage platform, detail = None,
      buttons = [''Open Docker download page'', ''Quit''], defaultId = 0, cancelId = 1\<rparr>"

definition showDockerMissingDialog :: "world \<Rightarrow> InstallAction settled \<times> world" where
  "showDockerMissingDialog w =
     (case showMessageBox (missingBox (platformName w)) w of
        (Pending, w1) \<Rightarrow> (Pending, w1)
      | (Thrown e, w1) \<Rightarrow> (Thrown e, w1)
      | (Done response, w1) \<Rightarrow>
          if response = 0 then
            (case openExternal getDockerDownloadUrl w1 of
               (Pending, w2) \<Rightarrow> (Pending, w2)
             | (Thrown e, w2) \<Rightarrow> (Thrown e, w2)
             | (Done u, w2) \<Rightarrow> (Done quit, w2))
          else (Done quit, w1))"

subsection \<open>main.ts\<close>

definition APP_URL :: string where
  "APP_URL = ''http://localhost:8080''"

definition daemonOffBox :: boxOptions where
  "daemonOffBox =
     \<lparr>boxType = ''warning'', title = ''Docker is not running'',
      message = ''Docker Desktop is installed but not running.'',
      detail = Some (''Start Docker Desktop, wait until it finishes starting, then click '' @
                     [CHR 0xE2, CHR 0x80, CHR 0x9C] @ ''Retry'' @
                     [CHR 0xE2, CHR 0x80, CHR 0x9D] @ ''.''),
      buttons = [''Retry'', ''Quit''], defaultId = 0, cancelId = 1\<rparr>"

text \<open>
  \<^verbatim>\<open>await f(); app.quit(); return;\<close>: whatever \<open>f\<close> resolved with is dropped. The type
  variable says as much: the value cannot be inspected.
\<close>

definition thenQuit :: "'a settled \<times> world \<Rightarrow> unit settled \<times> world" where
  "thenQuit rw =
     (case rw of
        (Done v, w) \<Rightarrow> (Done (), appQuit w)
      | (Thrown e, w) \<Rightarrow> (Thrown e, w)
      | (Pending, w) \<Rightarrow> (Pending, w))"

function bootstrapApp :: "world \<Rightarrow> unit settled \<times> world" where
  "bootstrapApp w =
     (case newBrowserWindow w of (i, w1) \<Rightarrow>
     (case loadURL i SplashPage (w1\<lparr>mainWindow := Some i\<rparr>) of
        (Pending, w2) \<Rightarrow> (Pending, w2)
      | (Thrown e, w2) \<Rightarrow> (Thrown e, w2)
      | (Done u, w2) \<Rightarrow>
         (case startStack w2 of
            (Pending, w3) \<Rightarrow> (Pending, w3)
          | (Thrown e, w3) \<Rightarrow> (Thrown e, w3)
          | (Done status, w3) \<Rightarrow>
              if status = docker_missing then
                thenQuit (showDockerMissingDialog w3)
              else if status = docker_daemon_off then
                (case showMessageBox daemonOffBox w3 of
                   (Pending, w4) \<Rightarrow> (Pending, w4)
                 | (Thrown e, w4) \<Rightarrow> (Thrown e, w4)
                 | (Done response, w4) \<Rightarrow>
                     if response = 0 then bootstrapApp w4
                     else (Done (), appQuit w4))
              else if status = compose_error then
                (Done (),
                 appQuit (showErrorBox ''Failed to start Docker stack''
                   (''Docker Compose returned an error. Open the app from the terminal '' @
                    ''to see logs, or check Docker Desktop.'') w3))
              else
                (case waitForHttpReady APP_URL w3 of
                   (Pending, w4) \<Rightarrow> (Pending, w4)
                 | (Thrown e, w4) \<Rightarrow> (Thrown e, w4)
                 | (Done ready, w4) \<Rightarrow>
                     if \<not> ready then
                       (Done (),
                        appQuit (showErrorBox ''Backend not responding''
                          (''The containers started, but the web server did not respond '' @
                           ''in time.'') w4))
                     else
                       (case mainWindow_loadURL (Url APP_URL) w4 of
                          (Pending, w5) \<Rightarrow> (Pending, w5)
                        | (Thrown e, w5) \<Rightarrow> (Thrown e, w5)
                        | (Done u', w5) \<Rightarrow> mainWindow_onClosed w5)))))"
  by pat_completeness auto

termination bootstrapApp
  by (relation "measure (\<lambda>w. length (stackReplies w))")
     (auto simp: newBrowserWindow_def loadURL_def startStack_def showMessageBox_def settle_def
        emit_def Let_def split: list.splits reply.splits prod.splits settled.splits)

text \<open>
  The handler both triggers pass to \<^verbatim>\<open>.catch\<close>: log the error, show the fixed notice,
  quit.
\<close>

definition onBootstrapError :: "string \<Rightarrow> world \<Rightarrow> world" where
  "onBootstrapError err w =
     appQuit (showErrorBox ''Unexpected error''
       ''Something went wrong while starting the Docker stack.''
       (consoleError ''Bootstrap error:'' err w))"

text \<open>\<^verbatim>\<open>bootstrapApp().catch((err) => {...})\<close>, the body of both triggers.\<close>

definition bootstrapCaught :: "world \<Rightarrow> world" where
  "bootstrapCaught w =
     (case bootstrapApp w of
        (Thrown err, w1) \<Rightarrow> onBootstrapError err w1
      | (Done u, w1) \<Rightarrow> w1
      | (Pending, w1) \<Rightarrow> w1)"

text \<open>\<^verbatim>\<open>app.on("ready", ...)\<close>\<close>

definition onReady :: "world \<Rightarrow> world" where
  "onReady w = bootstrapCaught w"

text \<open>\<^verbatim>\<open>app.on("window-all-closed", ...)\<close>\<close>

definition onWindowAllClosed :: "world \<Rightarrow> world" where
  "onWindowAllClosed w = (if platformName w \<noteq> ''darwin'' then appQuit w else w)"

text \<open>\<^verbatim>\<open>app.on("activate", ...)\<close>; \<open>openWindows\<close> is \<^verbatim>\<open>BrowserWindow.getAllWindows()\<close>.\<close>

definition onActivate :: "world \<Rightarrow> world" where
  "onActivate w = (if length (openWindows w) = 0 then bootstrapCaught w else w)"

text \<open>
  Electron's side of a window being closed by the user: the window leaves the list of open
  windows, its \<^verbatim>\<open>closed\<close> listeners run (each one registered by \<open>bootstrapApp\<close> assigns
  \<^verbatim>\<open>null\<close> to \<open>mainWindow\<close>), and \<^verbatim>\<open>window-all-closed\<close> fires when it was the last one.
\<close>

definition closeWindow :: "nat \<Rightarrow> world \<Rightarrow> world" where
  "closeWindow i w =
     (if i \<notin> set (openWindows w) then w
      else
        let w1 = w\<lparr>openWindows := removeAll i (openWindows w)\<rparr>;
            w2 = (if i \<in> set (closedHooks w1) then w1\<lparr>mainWindow := None\<rparr> else w1)
        in if openWindows w2 = [] then onWindowAllClosed w2 else w2)"


text \<open>
  The process as it starts: \<^verbatim>\<open>let mainWindow = null\<close>, no window, nothing logged; the
  arguments are the platform and the answers the collaborators are going to give.
\<close>

definition freshWorld ::
  "string \<Rightarrow> unit reply list \<Rightarrow> RuntimeStatus reply list \<Rightarrow> nat reply list \<Rightarrow>
   unit reply list \<Rightarrow> bool reply list \<Rightarrow> world" where
  "freshWorld platform loads stacks boxes externals readies =
     \<lparr>mainWindow = None, created = 0, openWindows = [], shown = Map.empty,
      closedHooks = [], quitting = False, log = [], platformName = platform,
      loadReplies = loads, stackReplies = stacks, boxReplies = boxes,
      externalReplies = externals, readyReplies = readies\<rparr>"

subsection \<open>Points of a pass\<close>

text \<open>
  The first call each branch of \<open>bootstrapApp\<close> makes once the status is known: lines 75
  (through \<open>showDockerMissingDialog\<close>, line 56 of the helper), 110, 131 and 139 of
  \<^verbatim>\<open>main.ts\<close>.
\<close>

definition branchCall :: "string \<Rightarrow> RuntimeStatus \<Rightarrow> event" where
  "branchCall platform s =
     (case s of
        docker_missing \<Rightarrow> ShowMessageBox (missingBox platform)
      | docker_daemon_off \<Rightarrow> ShowMessageBox daemonOffBox
      | compose_error \<Rightarrow>
          ShowErrorBox ''Failed to start Docker stack''
            (''Docker Compose returned an error. Open the app from the terminal '' @
             ''to see logs, or check Docker Desktop.'')
      | Ready \<Rightarrow> WaitForHttpReady APP_URL)"


text \<open>
  The world once the placeholder page has been requested in the fresh window, whatever
  the answer to that request.
\<close>

definition splashed :: "world \<Rightarrow> world" where
  "splashed w =
     snd (loadURL (created w) SplashPage
       ((snd (newBrowserWindow w))\<lparr>mainWindow := Some (created w)\<rparr>))"

text \<open>The world once \<open>startStack\<close> has been called.\<close>

definition probed :: "world \<Rightarrow> world" where
  "probed w = snd (startStack (splashed w))"

text \<open>
  The answers that lead a pass into its recursive call: the placeholder loads, the stack
  reports the daemon off, and the button pressed is number 0, \<^verbatim>\<open>Retry\<close>.
\<close>

definition retryChosen :: "world \<Rightarrow> bool" where
  "retryChosen w \<longleftrightarrow>
     (case loadReplies w of Resolves u # ls \<Rightarrow> True | _ \<Rightarrow> False) \<and>
     (case stackReplies w of Resolves s # ss \<Rightarrow> s = docker_daemon_off | _ \<Rightarrow> False) \<and>
     (case boxReplies w of Resolves r # bs \<Rightarrow> r = 0 | _ \<Rightarrow> False)"

text \<open>The world in which that recursive call starts.\<close>

definition retried :: "world \<Rightarrow> world" where
  "retried w = snd (showMessageBox daemonOffBox (probed w))"

text \<open>
  What the steps of a pass after \<open>startStack\<close> may do, short of the recursive call: no
  window is created, no further start is issued, \<open>mainWindow\<close> is not assigned, the log
  only grows, and windows numbered below \<open>n\<close> keep their page.
\<close>

definition quiet :: "nat \<Rightarrow> world \<Rightarrow> world \<Rightarrow> bool" where
  "quiet n w w' \<longleftrightarrow>
     created w' = created w \<and> openWindows w' = openWindows w \<and>
     mainWindow w' = mainWindow w \<and>
     count_list (log w') StartStack = count_list (log w) StartStack \<and>
     (\<exists>evs. log w' = log w @ evs) \<and>
     (\<forall>i<n. shown w' i = shown w i)"

subsection \<open>Unfolding one pass\<close>

declare bootstrapApp.simps [simp del]

lemmas call_defs = newBrowserWindow_def loadURL_def startStack_def showMessageBox_def
  waitForHttpReady_def openExternal_def settle_def emit_def Let_def

lemma bootstrapApp_load_unsettled:
  "loadReplies w = [] \<Longrightarrow> bootstrapApp w = (Pending, splashed w)"
  by (subst bootstrapApp.simps) (simp add: call_defs splashed_def)

lemma bootstrapApp_load_rejects:
  "loadReplies w = Rejects e # ls \<Longrightarrow> bootstrapApp w = (Thrown e, splashed w)"
  by (subst bootstrapApp.simps) (simp add: call_defs splashed_def)

lemma bootstrapApp_stack_unsettled:
  "loadReplies w = Resolves u # ls \<Longrightarrow> stackReplies w = [] \<Longrightarrow>
   bootstrapApp w = (Pending, probed w)"
  by (subst bootstrapApp.simps) (simp add: call_defs splashed_def probed_def)

lemma bootstrapApp_stack_rejects:
  "loadReplies w = Resolves u # ls \<Longrightarrow> stackReplies w = Rejects e # ss \<Longrightarrow>
   bootstrapApp w = (Thrown e, probed w)"
  by (subst bootstrapApp.simps) (simp add: call_defs splashed_def probed_def)

lemma bootstrapApp_docker_missing:
  "loadReplies w = Resolves u # ls \<Longrightarrow> stackReplies w = Resolves docker_missing # ss \<Longrightarrow>
   bootstrapApp w = thenQuit (showDockerMissingDialog (probed w))"
  by (subst bootstrapApp.simps) (simp add: call_defs splashed_def probed_def)

lemma bootstrapApp_docker_daemon_off:
  "loadReplies w = Resolves u # ls \<Longrightarrow> stackReplies w = Resolves docker_daemon_off # ss \<Longrightarrow>
   bootstrapApp w =
     (case showMessageBox daemonOffBox (probed w) of
        (Pending, w4) \<Rightarrow> (Pending, w4)
      | (Thrown e, w4) \<Rightarrow> (Thrown e, w4)
      | (Done response, w4) \<Rightarrow>
          if response = 0 then bootstrapApp w4 else (Done (), appQuit w4))"
  by (subst bootstrapApp.simps) (simp add: call_defs splashed_def probed_def)

lemma bootstrapApp_compose_error:
  "loadReplies w = Resolves u # ls \<Longrightarrow> stackReplies w = Resolves compose_error # ss \<Longrightarrow>
   bootstrapApp w =
     (Done (),
      appQuit (showErrorBox ''Failed to start Docker stack''
        (''Docker Compose returned an error. Open the app from the terminal '' @
         ''to see logs, or check Docker Desktop.'') (probed w)))"
  by (subst bootstrapApp.simps) (simp add: call_defs splashed_def probed_def)

lemma bootstrapApp_Ready:
  "loadReplies w = Resolves u # ls \<Longrightarrow> stackReplies w = Resolves Ready # ss \<Longrightarrow>
   bootstrapApp w =
     (case waitForHttpReady APP_URL (probed w) of
        (Pending, w4) \<Rightarrow> (Pending, w4)
      | (Thrown e, w4) \<Rightarrow> (Thrown e, w4)
      | (Done ready, w4) \<Rightarrow>
          if \<not> ready then
            (Done (),
             appQuit (showErrorBox ''Backend not responding''
               (''The containers started, but the web server did not respond '' @
                ''in time.'') w4))
          else
            (case mainWindow_loadURL (Url APP_URL) w4 of
               (Pending, w5) \<Rightarrow> (Pending, w5)
             | (Thrown e, w5) \<Rightarrow> (Thrown e, w5)
             | (Done u', w5) \<Rightarrow> mainWindow_onClosed w5))"
  by (subst bootstrapApp.simps) (simp add: call_defs splashed_def probed_def)

lemma bootstrapApp_retry:
  "retryChosen w \<Longrightarrow> bootstrapApp w = bootstrapApp (retried w)"
  by (subst bootstrapApp.simps)
     (auto simp add: retryChosen_def retried_def call_defs splashed_def probed_def
        split: list.splits reply.splits)

lemma splashed_fields:
  shows "log (splashed w) = log w @ [NewBrowserWindow (created w), LoadURL (created w) SplashPage]"
    and "created (splashed w) = Suc (created w)"
    and "openWindows (splashed w) = openWindows w @ [created w]"
    and "mainWindow (splashed w) = Some (created w)"
    and "closedHooks (splashed w) = closedHooks w"
    and "quitting (splashed w) = quitting w"
    and "platformName (splashed w) = platformName w"
    and "stackReplies (splashed w) = stackReplies w"
    and "boxReplies (splashed w) = boxReplies w"
    and "externalReplies (splashed w) = externalReplies w"
    and "readyReplies (splashed w) = readyReplies w"
  by (simp_all add: splashed_def call_defs split: list.split reply.split)

lemma probed_fields:
  shows "log (probed w) =
           log w @ [NewBrowserWindow (created w), LoadURL (created w) SplashPage, StartStack]"
    and "created (probed w) = Suc (created w)"
    and "openWindows (probed w) = openWindows w @ [created w]"
    and "mainWindow (probed w) = Some (created w)"
    and "closedHooks (probed w) = closedHooks w"
    and "quitting (probed w) = quitting w"
    and "platformName (probed w) = platformName w"
    and "boxReplies (probed w) = boxReplies w"
    and "externalReplies (probed w) = externalReplies w"
    and "readyReplies (probed w) = readyReplies w"
  by (simp_all add: probed_def startStack_def emit_def Let_def splashed_fields split: prod.split)

lemma probed_queues:
  assumes "loadReplies w = Resolves u # ls"
  shows "loadReplies (probed w) = ls"
    and "shown (probed w) = (shown w)(created w \<mapsto> SplashPage)"
    and "stackReplies (probed w) = tl (stackReplies w)"
  using assms
  by (simp_all add: probed_def splashed_def call_defs split: list.split reply.split)

lemma retried_fields:
  shows "log (retried w) =
           log w @ [NewBrowserWindow (created w), LoadURL (created w) SplashPage, StartStack,
                    ShowMessageBox daemonOffBox]"
    and "created (retried w) = Suc (created w)"
    and "openWindows (retried w) = openWindows w @ [created w]"
    and "mainWindow (retried w) = Some (created w)"
    and "closedHooks (retried w) = closedHooks w"
    and "quitting (retried w) = quitting w"
    and "platformName (retried w) = platformName w"
    and "boxReplies (retried w) = tl (boxReplies w)"
    and "externalReplies (retried w) = externalReplies w"
    and "readyReplies (retried w) = readyReplies w"
  by (simp_all add: retried_def showMessageBox_def settle_def emit_def Let_def probed_fields
      split: prod.split list.split reply.split)

lemma retried_queues:
  assumes "loadReplies w = Resolves u # ls"
  shows "loadReplies (retried w) = ls"
    and "shown (retried w) = (shown w)(created w \<mapsto> SplashPage)"
    and "stackReplies (retried w) = tl (stackReplies w)"
  using assms
  by (simp_all add: retried_def showMessageBox_def settle_def emit_def Let_def probed_queues
      split: prod.split list.split reply.split)

lemma quiet_refl: "quiet n w w"
  by (simp add: quiet_def)

lemma quiet_trans: "quiet n w w' \<Longrightarrow> quiet n w' w'' \<Longrightarrow> quiet n w w''"
  by (auto simp: quiet_def)

lemma quiet_showMessageBox: "quiet n w (snd (showMessageBox opts w))"
  by (simp add: quiet_def showMessageBox_def emit_def Let_def split: prod.split)

lemma quiet_openExternal: "quiet n w (snd (openExternal url w))"
  by (simp add: quiet_def openExternal_def emit_def Let_def split: prod.split)

lemma quiet_waitForHttpReady: "quiet n w (snd (waitForHttpReady url w))"
  by (simp add: quiet_def waitForHttpReady_def emit_def Let_def split: prod.split)

lemma quiet_appQuit: "quiet n w (appQuit w)"
  by (simp add: quiet_def appQuit_def emit_def)

lemma quiet_showErrorBox: "quiet n w (showErrorBox t c w)"
  by (simp add: quiet_def showErrorBox_def emit_def)

lemma quiet_loadURL: "n \<le> i \<Longrightarrow> quiet n w (snd (loadURL i p w))"
  by (simp add: quiet_def loadURL_def settle_def emit_def Let_def
      split: prod.split list.split reply.split)

lemma quiet_mainWindow_loadURL:
  "mainWindow w = Some i \<Longrightarrow> n \<le> i \<Longrightarrow> quiet n w (snd (mainWindow_loadURL p w))"
  by (simp add: mainWindow_loadURL_def quiet_loadURL)

lemma quiet_mainWindow_onClosed: "quiet n w (snd (mainWindow_onClosed w))"
  by (simp add: quiet_def mainWindow_onClosed_def emit_def split: option.split)

lemma quiet_showDockerMissingDialog: "quiet n w (snd (showDockerMissingDialog w))"
proof -
  let ?b = "showMessageBox (missingBox (platformName w)) w"
  have a: "quiet n w (snd ?b)" by (rule quiet_showMessageBox)
  have b: "quiet n w (snd (openExternal getDockerDownloadUrl (snd ?b)))"
    by (rule quiet_trans [OF a quiet_openExternal])
  show ?thesis
    using a b
    by (cases ?b) (auto simp add: showDockerMissingDialog_def split: settled.split prod.split)
qed

lemma snd_thenQuit: "snd (thenQuit rw) = (case fst rw of Done v \<Rightarrow> appQuit (snd rw) | _ \<Rightarrow> snd rw)"
  by (cases rw) (simp add: thenQuit_def split: settled.split)

lemma quiet_thenQuit: "quiet n w (snd rw) \<Longrightarrow> quiet n w (snd (thenQuit rw))"
  by (auto simp: snd_thenQuit split: settled.split intro: quiet_trans quiet_appQuit)

lemma Ready_pass_quiet:
  assumes ld: "loadReplies w = Resolves u # ls" and st: "stackReplies w = Resolves Ready # ss"
  shows "quiet (created w) (snd (waitForHttpReady APP_URL (probed w))) (snd (bootstrapApp w))"
proof -
  let ?p = "waitForHttpReady APP_URL (probed w)"
  have m: "mainWindow (snd ?p) = Some (created w)"
    by (simp add: waitForHttpReady_def emit_def Let_def probed_fields split: prod.split)
  have l: "quiet (created w) (snd ?p) (snd (mainWindow_loadURL (Url APP_URL) (snd ?p)))"
    using m by (simp add: quiet_mainWindow_loadURL)
  have c: "quiet (created w) (snd ?p)
             (snd (mainWindow_onClosed (snd (mainWindow_loadURL (Url APP_URL) (snd ?p)))))"
    by (rule quiet_trans [OF l quiet_mainWindow_onClosed])
  have e: "quiet (created w) (snd ?p) (appQuit (showErrorBox t c (snd ?p)))" for t c
    by (rule quiet_trans [OF quiet_showErrorBox quiet_appQuit])
  show ?thesis
    using ld st l c e
    by (cases ?p; cases "mainWindow_loadURL (Url APP_URL) (snd ?p)")
       (auto simp add: bootstrapApp_Ready quiet_refl split: settled.splits)
qed

lemma non_retry_quiet:
  assumes nr: "\<not> retryChosen w" and ld: "loadReplies w = Resolves u # ls"
  shows "quiet (created w) (probed w) (snd (bootstrapApp w))"
proof (cases "stackReplies w")
  case Nil
  then show ?thesis using ld by (simp add: bootstrapApp_stack_unsettled quiet_refl)
next
  case (Cons r ss)
  show ?thesis
  proof (cases r)
    case (Rejects e)
    then show ?thesis using ld Cons by (simp add: bootstrapApp_stack_rejects quiet_refl)
  next
    case (Resolves s)
    note st = Cons [unfolded Resolves]
    show ?thesis
    proof (cases s)
      case docker_missing
      then show ?thesis
        using ld st
        by (simp add: bootstrapApp_docker_missing quiet_thenQuit quiet_showDockerMissingDialog)
    next
      case docker_daemon_off
      let ?b = "showMessageBox daemonOffBox (probed w)"
      have q: "quiet (created w) (probed w) (snd ?b)" by (rule quiet_showMessageBox)
      have no: "fst ?b \<noteq> Done 0"
        using nr ld st docker_daemon_off
        by (auto simp: retryChosen_def showMessageBox_def settle_def emit_def Let_def
            probed_fields split: list.splits reply.splits prod.splits)
      have "bootstrapApp w =
              (case ?b of (Pending, w4) \<Rightarrow> (Pending, w4) | (Thrown e, w4) \<Rightarrow> (Thrown e, w4)
               | (Done response, w4) \<Rightarrow>
                   if response = 0 then bootstrapApp w4 else (Done (), appQuit w4))"
        using ld st docker_daemon_off by (simp only: bootstrapApp_docker_daemon_off)
      then show ?thesis
        using q no
        by (cases ?b) (auto split: settled.splits intro: quiet_trans quiet_appQuit)
    next
      case compose_error
      then show ?thesis
        using ld st
        by (auto simp add: bootstrapApp_compose_error
            intro: quiet_trans quiet_showErrorBox quiet_appQuit)
    next
      case Ready
      let ?p = "waitForHttpReady APP_URL (probed w)"
      have q: "quiet (created w) (probed w) (snd ?p)" by (rule quiet_waitForHttpReady)
      have "quiet (created w) (snd ?p) (snd (bootstrapApp w))"
        using ld st Ready by (simp add: Ready_pass_quiet)
      then show ?thesis using q by (rule quiet_trans [rotated])
    qed
  qed
qed

lemma not_loaded_pass:
  assumes "\<forall>u ls. loadReplies w \<noteq> Resolves u # ls"
  shows "snd (bootstrapApp w) = splashed w"
proof (cases "loadReplies w")
  case Nil
  then show ?thesis by (simp add: bootstrapApp_load_unsettled)
next
  case (Cons r ls)
  then show ?thesis using assms by (cases r) (simp_all add: bootstrapApp_load_rejects)
qed

lemma retryChosen_iff:
  "retryChosen w \<longleftrightarrow>
     (\<exists>u ls ss bs. loadReplies w = Resolves u # ls \<and>
        stackReplies w = Resolves docker_daemon_off # ss \<and> boxReplies w = Resolves 0 # bs)"
  by (auto simp: retryChosen_def split: list.splits reply.splits)

lemma bootstrapApp_extends:
  "(\<exists>evs. log (snd (bootstrapApp w)) = log (splashed w) @ evs) \<and>
   (\<exists>ws. openWindows (snd (bootstrapApp w)) = openWindows w @ created w # ws) \<and>
   created w < created (snd (bootstrapApp w)) \<and>
   (\<forall>i<created w. shown (snd (bootstrapApp w)) i = shown w i) \<and>
   (\<exists>k\<ge>created w. mainWindow (snd (bootstrapApp w)) = Some k)"
proof (induction "length (stackReplies w)" arbitrary: w rule: less_induct)
  case less
  show ?case
  proof (cases "retryChosen w")
    case True
    then obtain u ls ss bs where q: "loadReplies w = Resolves u # ls"
      "stackReplies w = Resolves docker_daemon_off # ss" "boxReplies w = Resolves 0 # bs"
      by (auto simp: retryChosen_iff)
    have eq: "bootstrapApp w = bootstrapApp (retried w)"
      using True by (rule bootstrapApp_retry)
    have shorter: "length (stackReplies (retried w)) < length (stackReplies w)"
      using q by (simp add: retried_queues)
    from less [OF shorter] obtain evs ws where
      l: "log (snd (bootstrapApp (retried w))) = log (splashed (retried w)) @ evs" and
      o: "openWindows (snd (bootstrapApp (retried w))) =
            openWindows (retried w) @ created (retried w) # ws" and
      c: "created (retried w) < created (snd (bootstrapApp (retried w)))" and
      s: "\<forall>i<created (retried w). shown (snd (bootstrapApp (retried w))) i = shown (retried w) i"
      by blast
    from less [OF shorter] obtain k where
      m: "created (retried w) \<le> k" "mainWindow (snd (bootstrapApp (retried w))) = Some k"
      by blast
    have "log (snd (bootstrapApp w)) = log (splashed w) @
            (StartStack # ShowMessageBox daemonOffBox # NewBrowserWindow (Suc (created w)) #
             LoadURL (Suc (created w)) SplashPage # evs)"
      using l by (simp add: eq splashed_fields retried_fields)
    moreover have "openWindows (snd (bootstrapApp w)) =
            openWindows w @ created w # (Suc (created w) # ws)"
      using o by (simp add: eq retried_fields)
    moreover have "created w < created (snd (bootstrapApp w))"
      using c by (simp add: eq retried_fields)
    moreover have "\<forall>i<created w. shown (snd (bootstrapApp w)) i = shown w i"
      using s q by (simp add: eq retried_fields retried_queues)
    moreover have "\<exists>k\<ge>created w. mainWindow (snd (bootstrapApp w)) = Some k"
      using m by (simp add: eq retried_fields)
    ultimately show ?thesis by blast
  next
    case False
    show ?thesis
    proof (cases "\<exists>u ls. loadReplies w = Resolves u # ls")
      case True
      then obtain u ls where ld: "loadReplies w = Resolves u # ls" by blast
      have q: "quiet (created w) (probed w) (snd (bootstrapApp w))"
        using False ld by (rule non_retry_quiet)
      then obtain evs where "log (snd (bootstrapApp w)) = log (probed w) @ evs"
        by (auto simp: quiet_def)
      then have "log (snd (bootstrapApp w)) = log (splashed w) @ (StartStack # evs)"
        by (simp add: probed_fields splashed_fields)
      moreover have "openWindows (snd (bootstrapApp w)) = openWindows w @ created w # []"
        using q by (simp add: quiet_def probed_fields)
      moreover have "created w < created (snd (bootstrapApp w))"
        using q by (simp add: quiet_def probed_fields)
      moreover have "\<forall>i<created w. shown (snd (bootstrapApp w)) i = shown w i"
        using q ld by (simp add: quiet_def probed_queues)
      moreover have "\<exists>k\<ge>created w. mainWindow (snd (bootstrapApp w)) = Some k"
        using q by (simp add: quiet_def probed_fields)
      ultimately show ?thesis by blast
    next
      case False
      then have "snd (bootstrapApp w) = splashed w" by (simp add: not_loaded_pass)
      moreover have "\<forall>i<created w. shown (splashed w) i = shown w i"
        by (simp add: splashed_def call_defs split: list.split reply.split)
      ultimately show ?thesis by (simp add: splashed_fields)
    qed
  qed
qed

lemma retries_tally:
  assumes "loadReplies w = replicate N (Resolves ()) @ Resolves () # ls"
    and "stackReplies w = replicate N (Resolves docker_daemon_off) @ ss"
    and "boxReplies w = replicate N (Resolves 0) @ bs"
    and "\<not> (\<exists>ss' bs'. ss = Resolves docker_daemon_off # ss' \<and> bs = Resolves 0 # bs')"
  shows "created (snd (bootstrapApp w)) = created w + N + 1 \<and>
         openWindows (snd (bootstrapApp w)) = openWindows w @ [created w ..< created w + N + 1] \<and>
         count_list (log (snd (bootstrapApp w))) StartStack =
           count_list (log w) StartStack + N + 1"
  using assms
proof (induction N arbitrary: w)
  case 0
  then have nr: "\<not> retryChosen w" by (auto simp: retryChosen_iff)
  have "quiet (created w) (probed w) (snd (bootstrapApp w))"
    using nr 0(1) by (simp add: non_retry_quiet)
  then show ?case by (simp add: quiet_def probed_fields)
next
  case (Suc N)
  have r: "retryChosen w" using Suc.prems by (simp add: retryChosen_iff)
  have eq: "bootstrapApp w = bootstrapApp (retried w)" using r by (rule bootstrapApp_retry)
  have ld: "loadReplies w = Resolves () # (replicate N (Resolves ()) @ Resolves () # ls)"
    using Suc.prems(1) by simp
  have "created (snd (bootstrapApp (retried w))) = created (retried w) + N + 1 \<and>
        openWindows (snd (bootstrapApp (retried w))) =
          openWindows (retried w) @ [created (retried w) ..< created (retried w) + N + 1] \<and>
        count_list (log (snd (bootstrapApp (retried w)))) StartStack =
          count_list (log (retried w)) StartStack + N + 1"
  proof (rule Suc.IH)
    show "loadReplies (retried w) = replicate N (Resolves ()) @ Resolves () # ls"
      using ld by (simp add: retried_queues)
    show "stackReplies (retried w) = replicate N (Resolves docker_daemon_off) @ ss"
      using ld Suc.prems(2) by (simp add: retried_queues)
    show "boxReplies (retried w) = replicate N (Resolves 0) @ bs"
      using Suc.prems(3) by (simp add: retried_fields)
    show "\<not> (\<exists>ss' bs'. ss = Resolves docker_daemon_off # ss' \<and> bs = Resolves 0 # bs')"
      by (rule Suc.prems(4))
  qed
  then show ?case
    by (simp add: eq retried_fields upt_rec [of "created w"])
qed

subsection \<open>The log of each branch\<close>

lemma missing_branch_log:
  assumes "loadReplies w = Resolves u # ls" and "stackReplies w = Resolves docker_missing # ss"
  shows "\<exists>rest. log (snd (bootstrapApp w)) =
            log (probed w) @ ShowMessageBox (missingBox (platformName w)) # rest \<and>
            set rest \<subseteq> {OpenExternal getDockerDownloadUrl, AppQuit}"
  using assms
  by (simp add: bootstrapApp_docker_missing thenQuit_def showDockerMissingDialog_def
      showMessageBox_def openExternal_def settle_def emit_def Let_def appQuit_def probed_fields
      split: list.split reply.split)

lemma daemon_off_branch_log:
  assumes "loadReplies w = Resolves u # ls" and "stackReplies w = Resolves docker_daemon_off # ss"
  shows "\<exists>rest. log (snd (bootstrapApp w)) = log (probed w) @ ShowMessageBox daemonOffBox # rest \<and>
            (\<not> retryChosen w \<longrightarrow> set rest \<subseteq> {AppQuit})"
proof (cases "retryChosen w")
  case True
  then have "bootstrapApp w = bootstrapApp (retried w)" by (rule bootstrapApp_retry)
  moreover obtain evs where "log (snd (bootstrapApp (retried w))) = log (splashed (retried w)) @ evs"
    using bootstrapApp_extends [of "retried w"] by blast
  ultimately show ?thesis using True by (simp add: splashed_fields retried_fields probed_fields)
next
  case False
  then have "boxReplies w \<noteq> Resolves 0 # bs" for bs
    using assms by (simp add: retryChosen_iff)
  then show ?thesis
    using assms False
    by (simp add: bootstrapApp_docker_daemon_off showMessageBox_def settle_def emit_def Let_def
        appQuit_def probed_fields split: list.split reply.split)
qed

lemma compose_error_branch_log:
  assumes "loadReplies w = Resolves u # ls" and "stackReplies w = Resolves compose_error # ss"
  shows "log (snd (bootstrapApp w)) =
           log (probed w) @ [branchCall (platformName w) compose_error, AppQuit]"
  using assms
  by (simp add: bootstrapApp_compose_error branchCall_def showErrorBox_def emit_def appQuit_def)

lemma Ready_branch_log:
  assumes "loadReplies w = Resolves u # ls" and "stackReplies w = Resolves Ready # ss"
  shows "\<exists>rest. log (snd (bootstrapApp w)) = log (probed w) @ WaitForHttpReady APP_URL # rest \<and>
            set rest \<subseteq> {ShowErrorBox ''Backend not responding''
                           (''The containers started, but the web server did not respond '' @
                            ''in time.''),
                         AppQuit, LoadURL (created w) (Url APP_URL), OnClosed (created w)}"
  using assms
  by (simp add: bootstrapApp_Ready waitForHttpReady_def mainWindow_loadURL_def loadURL_def
      mainWindow_onClosed_def showErrorBox_def settle_def emit_def Let_def appQuit_def probed_fields
      split: list.split reply.split)

lemma branchCall_not_later:
  "branchCall p s' \<noteq> OpenExternal url" "branchCall p s' \<noteq> AppQuit"
  "branchCall p s' \<noteq> LoadURL i pg" "branchCall p s' \<noteq> OnClosed i"
  "branchCall p s' \<noteq> ShowErrorBox ''Backend not responding'' c"
  by (cases s'; simp add: branchCall_def)+

lemma branchCall_avoids:
  assumes "set rest \<subseteq> {OpenExternal url, AppQuit, LoadURL i pg, OnClosed i,
                        ShowErrorBox ''Backend not responding'' c}"
  shows "branchCall p s' \<notin> set rest"
proof
  assume "branchCall p s' \<in> set rest"
  then have "branchCall p s' \<in> {OpenExternal url, AppQuit, LoadURL i pg, OnClosed i,
                        ShowErrorBox ''Backend not responding'' c}"
    using assms by blast
  then show False
    using branchCall_not_later [of p s'] by blast
qed

subsection \<open>Evaluating a run on given answers\<close>

lemmas eval_defs = freshWorld_def newBrowserWindow_def loadURL_def startStack_def
  showMessageBox_def waitForHttpReady_def openExternal_def settle_def emit_def Let_def
  thenQuit_def showDockerMissingDialog_def appQuit_def showErrorBox_def consoleError_def
  mainWindow_loadURL_def mainWindow_onClosed_def onBootstrapError_def bootstrapCaught_def
  onReady_def onActivate_def bootstrapApp.simps

lemma bootstrapCaught_quiet: "quiet n (snd (bootstrapApp w)) (bootstrapCaught w)"
  by (cases "bootstrapApp w")
     (simp add: bootstrapCaught_def onBootstrapError_def appQuit_def showErrorBox_def
        consoleError_def emit_def quiet_def split: settled.split)

section \<open>The claims\<close>

text \<open>
  C1. For each of the four statuses that \<open>startStack\<close> can return, the call that follows
  it in the pass is the one documented for that status: the remediation prompt of the
  install helper for \<open>docker_missing\<close>, the Retry/Quit prompt for \<open>docker_daemon_off\<close>,
  the error notice for \<open>compose_error\<close>, the readiness probe for \<open>Ready\<close>. Unless the
  user retries (which starts the pass again), the first call of any other branch does not
  occur in the rest of the pass.
\<close>

theorem bootstrapApp_branch_on_status:
  assumes "loadReplies w = Resolves () # ls" and "stackReplies w = Resolves s # ss"
  shows "\<exists>rest. log (snd (bootstrapApp w)) =
             log w @ [NewBrowserWindow (created w), LoadURL (created w) SplashPage, StartStack,
                      branchCall (platformName w) s] @ rest \<and>
           (\<not> retryChosen w \<longrightarrow>
              (\<forall>s'. s' \<noteq> s \<longrightarrow> branchCall (platformName w) s' \<notin> set rest))"
proof -
  let ?c = "''The containers started, but the web server did not respond '' @ ''in time.''"
  let ?S = "{OpenExternal getDockerDownloadUrl, AppQuit, LoadURL (created w) (Url APP_URL),
             OnClosed (created w), ShowErrorBox ''Backend not responding'' ?c}"
  have "\<exists>rest. log (snd (bootstrapApp w)) =
          log (probed w) @ branchCall (platformName w) s # rest \<and>
          (\<not> retryChosen w \<longrightarrow> set rest \<subseteq> ?S)"
  proof (cases s)
    case docker_missing
    then show ?thesis
      using assms missing_branch_log [of w "()" ls ss] by (auto simp: branchCall_def)
  next
    case docker_daemon_off
    then show ?thesis
      using assms daemon_off_branch_log [of w "()" ls ss] by (auto simp: branchCall_def)
  next
    case compose_error
    then show ?thesis
      using assms compose_error_branch_log [of w "()" ls ss] by simp
  next
    case Ready
    then show ?thesis
      using assms Ready_branch_log [of w "()" ls ss] by (auto simp: branchCall_def)
  qed
  then obtain rest where
    l: "log (snd (bootstrapApp w)) = log (probed w) @ branchCall (platformName w) s # rest" and
    r: "\<not> retryChosen w \<longrightarrow> set rest \<subseteq> ?S"
    by blast
  have "\<not> retryChosen w \<longrightarrow>
          (\<forall>s'. s' \<noteq> s \<longrightarrow> branchCall (platformName w) s' \<notin> set rest)"
    using r branchCall_avoids [of rest] by blast
  then show ?thesis using l by (simp add: probed_fields)
qed


theorem bootstrapApp_branch_on_status_witness:
  "(\<exists>rest. log (snd (bootstrapApp (freshWorld ''linux'' [Resolves ()] [Resolves docker_missing] [Resolves 1] [] []))) =
       [NewBrowserWindow 0, LoadURL 0 SplashPage, StartStack,
        ShowMessageBox (missingBox ''linux'')] @ rest \<and>
       ShowMessageBox daemonOffBox \<notin> set rest) \<and>
   (\<exists>rest. log (snd (bootstrapApp (freshWorld ''linux'' [Resolves ()] [Resolves docker_daemon_off] [Resolves 1] [] []))) =
       [NewBrowserWindow 0, LoadURL 0 SplashPage, StartStack,
        ShowMessageBox daemonOffBox] @ rest \<and>
       WaitForHttpReady APP_URL \<notin> set rest) \<and>
   (\<exists>rest. log (snd (bootstrapApp (freshWorld ''linux'' [Resolves ()] [Resolves compose_error] [] [] []))) =
       [NewBrowserWindow 0, LoadURL 0 SplashPage, StartStack,
        ShowErrorBox ''Failed to start Docker stack''
          (''Docker Compose returned an error. Open the app from the terminal '' @
           ''to see logs, or check Docker Desktop.'')] @ rest \<and>
       WaitForHttpReady APP_URL \<notin> set rest) \<and>
   (\<exists>rest. log (snd (bootstrapApp (freshWorld ''linux'' [Resolves ()] [Resolves Ready] [] [] [Resolves True]))) =
       [NewBrowserWindow 0, LoadURL 0 SplashPage, StartStack,
        WaitForHttpReady APP_URL] @ rest \<and>
       ShowMessageBox daemonOffBox \<notin> set rest)"
proof -
  let ?m = "freshWorld ''linux'' [Resolves ()] [Resolves docker_missing] [Resolves 1] [] []"
  let ?d = "freshWorld ''linux'' [Resolves ()] [Resolves docker_daemon_off] [Resolves 1] [] []"
  let ?c = "freshWorld ''linux'' [Resolves ()] [Resolves compose_error] [] [] []"
  let ?r = "freshWorld ''linux'' [Resolves ()] [Resolves Ready] [] [] [Resolves True]"
  have bc: "branchCall p docker_daemon_off = ShowMessageBox daemonOffBox"
    "branchCall p Ready = WaitForHttpReady APP_URL" for p
    by (simp_all add: branchCall_def)
  have nr: "\<not> retryChosen ?m" "\<not> retryChosen ?d" "\<not> retryChosen ?c" "\<not> retryChosen ?r"
    by (simp_all add: retryChosen_def freshWorld_def)
  have m: "loadReplies ?m = Resolves () # []" "stackReplies ?m = Resolves docker_missing # []"
    by (simp_all add: freshWorld_def)
  from bootstrapApp_branch_on_status [OF m] nr(1) obtain rest1 where
    "log (snd (bootstrapApp ?m)) =
       log ?m @ [NewBrowserWindow (created ?m), LoadURL (created ?m) SplashPage, StartStack,
                 branchCall (platformName ?m) docker_missing] @ rest1"
    "branchCall (platformName ?m) docker_daemon_off \<notin> set rest1"
    by blast
  then have 1: "\<exists>rest. log (snd (bootstrapApp ?m)) =
       [NewBrowserWindow 0, LoadURL 0 SplashPage, StartStack,
        ShowMessageBox (missingBox ''linux'')] @ rest \<and>
       ShowMessageBox daemonOffBox \<notin> set rest"
    by (simp add: freshWorld_def branchCall_def)
  have d: "loadReplies ?d = Resolves () # []" "stackReplies ?d = Resolves docker_daemon_off # []"
    by (simp_all add: freshWorld_def)
  from bootstrapApp_branch_on_status [OF d] nr(2) obtain rest2 where
    "log (snd (bootstrapApp ?d)) =
       log ?d @ [NewBrowserWindow (created ?d), LoadURL (created ?d) SplashPage, StartStack,
                 branchCall (platformName ?d) docker_daemon_off] @ rest2"
    "branchCall (platformName ?d) Ready \<notin> set rest2"
    by blast
  then have 2: "\<exists>rest. log (snd (bootstrapApp ?d)) =
       [NewBrowserWindow 0, LoadURL 0 SplashPage, StartStack,
        ShowMessageBox daemonOffBox] @ rest \<and>
       WaitForHttpReady APP_URL \<notin> set rest"
    by (simp add: freshWorld_def branchCall_def)
  have c: "loadReplies ?c = Resolves () # []" "stackReplies ?c = Resolves compose_error # []"
    by (simp_all add: freshWorld_def)
  from bootstrapApp_branch_on_status [OF c] nr(3) obtain rest3 where
    "log (snd (bootstrapApp ?c)) =
       log ?c @ [NewBrowserWindow (created ?c), LoadURL (created ?c) SplashPage, StartStack,
                 branchCall (platformName ?c) compose_error] @ rest3"
    "branchCall (platformName ?c) Ready \<notin> set rest3"
    by blast
  then have 3: "\<exists>rest. log (snd (bootstrapApp ?c)) =
       [NewBrowserWindow 0, LoadURL 0 SplashPage, StartStack,
        ShowErrorBox ''Failed to start Docker stack''
          (''Docker Compose returned an error. Open the app from the terminal '' @
           ''to see logs, or check Docker Desktop.'')] @ rest \<and>
       WaitForHttpReady APP_URL \<notin> set rest"
    by (simp add: freshWorld_def branchCall_def)
  have r: "loadReplies ?r = Resolves () # []" "stackReplies ?r = Resolves Ready # []"
    by (simp_all add: freshWorld_def)
  from bootstrapApp_branch_on_status [OF r] nr(4) obtain rest4 where
    "log (snd (bootstrapApp ?r)) =
       log ?r @ [NewBrowserWindow (created ?r), LoadURL (created ?r) SplashPage, StartStack,
                 branchCall (platformName ?r) Ready] @ rest4"
    "branchCall (platformName ?r) docker_daemon_off \<notin> set rest4"
    by blast
  then have 4: "\<exists>rest. log (snd (bootstrapApp ?r)) =
       [NewBrowserWindow 0, LoadURL 0 SplashPage, StartStack,
        WaitForHttpReady APP_URL] @ rest \<and>
       ShowMessageBox daemonOffBox \<notin> set rest"
    by (simp add: freshWorld_def branchCall_def)
  from 1 2 3 4 show ?thesis by (intro conjI)
qed

text \<open>
  C2, as stated, fails. With the daemon off, Retry pressed, and the stack failing on the
  second attempt, the log shows a second \<open>NewBrowserWindow\<close> after the prompt, both
  windows are open at the end, and \<open>mainWindow\<close> refers to the second.
\<close>

theorem retry_reuses_window_counterexample:
  "log (snd (bootstrapApp (freshWorld ''linux'' [Resolves (), Resolves ()]
          [Resolves docker_daemon_off, Resolves compose_error] [Resolves 0] [] []))) =
     [NewBrowserWindow 0, LoadURL 0 SplashPage, StartStack, ShowMessageBox daemonOffBox,
      NewBrowserWindow 1, LoadURL 1 SplashPage, StartStack,
      ShowErrorBox ''Failed to start Docker stack''
        (''Docker Compose returned an error. Open the app from the terminal '' @
         ''to see logs, or check Docker Desktop.''),
      AppQuit] \<and>
   openWindows (snd (bootstrapApp (freshWorld ''linux'' [Resolves (), Resolves ()]
          [Resolves docker_daemon_off, Resolves compose_error] [Resolves 0] [] []))) = [0, 1] \<and>
   mainWindow (snd (bootstrapApp (freshWorld ''linux'' [Resolves (), Resolves ()]
          [Resolves docker_daemon_off, Resolves compose_error] [Resolves 0] [] []))) = Some 1"
  by (simp add: eval_defs)

text \<open>
  C2, amended. When the status is \<open>docker_daemon_off\<close> and the user chooses Retry, the pass
  is restarted from scratch with the answers that remain, and that includes the creation of
  a window: the retry creates a new window and loads the placeholder into it, the variable
  \<open>mainWindow\<close> ends up referring to a window newer than the one of the earlier pass, and
  the earlier window stays open, still showing the placeholder.
\<close>

theorem retry_restarts_with_new_window:
  assumes "loadReplies w = Resolves () # ls"
    and "stackReplies w = Resolves docker_daemon_off # ss"
    and "boxReplies w = Resolves 0 # bs"
  shows "bootstrapApp w = bootstrapApp (retried w) \<and>
         created (retried w) = Suc (created w) \<and>
         loadReplies (retried w) = ls \<and> stackReplies (retried w) = ss \<and>
         boxReplies (retried w) = bs \<and>
         (\<exists>rest. log (snd (bootstrapApp w)) =
            log w @ [NewBrowserWindow (created w), LoadURL (created w) SplashPage, StartStack,
                     ShowMessageBox daemonOffBox, NewBrowserWindow (Suc (created w)),
                     LoadURL (Suc (created w)) SplashPage] @ rest) \<and>
         (\<exists>ws. openWindows (snd (bootstrapApp w)) =
            openWindows w @ created w # Suc (created w) # ws) \<and>
         shown (snd (bootstrapApp w)) (created w) = Some SplashPage \<and>
         (\<exists>k>created w. mainWindow (snd (bootstrapApp w)) = Some k)"
proof -
  have r: "retryChosen w" using assms by (simp add: retryChosen_iff)
  have eq: "bootstrapApp w = bootstrapApp (retried w)" using r by (rule bootstrapApp_retry)
  obtain evs ws k where
    l: "log (snd (bootstrapApp (retried w))) = log (splashed (retried w)) @ evs" and
    o: "openWindows (snd (bootstrapApp (retried w))) =
          openWindows (retried w) @ created (retried w) # ws" and
    s: "\<forall>i<created (retried w). shown (snd (bootstrapApp (retried w))) i = shown (retried w) i" and
    m: "created (retried w) \<le> k" "mainWindow (snd (bootstrapApp (retried w))) = Some k"
    using bootstrapApp_extends [of "retried w"] by blast
  have "log (snd (bootstrapApp w)) =
          log w @ [NewBrowserWindow (created w), LoadURL (created w) SplashPage, StartStack,
                   ShowMessageBox daemonOffBox, NewBrowserWindow (Suc (created w)),
                   LoadURL (Suc (created w)) SplashPage] @ evs"
    using l by (simp add: eq splashed_fields retried_fields)
  moreover have "openWindows (snd (bootstrapApp w)) =
          openWindows w @ created w # Suc (created w) # ws"
    using o by (simp add: eq retried_fields)
  moreover have "shown (snd (bootstrapApp w)) (created w) = Some SplashPage"
    using s assms(1) by (simp add: eq retried_fields retried_queues)
  moreover have "\<exists>k>created w. mainWindow (snd (bootstrapApp w)) = Some k"
    using m by (simp add: eq retried_fields)
  moreover have "loadReplies (retried w) = ls" "stackReplies (retried w) = ss"
    "boxReplies (retried w) = bs" "created (retried w) = Suc (created w)"
    using assms by (simp_all add: retried_queues retried_fields)
  ultimately show ?thesis using eq by blast
qed

theorem retry_restarts_with_new_window_witness:
  "\<exists>rest. log (snd (bootstrapApp (freshWorld ''darwin'' [Resolves (), Resolves ()]
              [Resolves docker_daemon_off, Resolves Ready] [Resolves 0] [] [Resolves False]))) =
     [NewBrowserWindow 0, LoadURL 0 SplashPage, StartStack, ShowMessageBox daemonOffBox,
      NewBrowserWindow 1, LoadURL 1 SplashPage] @ rest"
proof -
  let ?w = "freshWorld ''darwin'' [Resolves (), Resolves ()]
              [Resolves docker_daemon_off, Resolves Ready] [Resolves 0] [] [Resolves False]"
  have h: "loadReplies ?w = Resolves () # [Resolves ()]"
    "stackReplies ?w = Resolves docker_daemon_off # [Resolves Ready]"
    "boxReplies ?w = Resolves 0 # []"
    by (simp_all add: freshWorld_def)
  from retry_restarts_with_new_window [OF h] obtain rest where
    "log (snd (bootstrapApp ?w)) =
       log ?w @ [NewBrowserWindow (created ?w), LoadURL (created ?w) SplashPage, StartStack,
                 ShowMessageBox daemonOffBox, NewBrowserWindow (Suc (created ?w)),
                 LoadURL (Suc (created ?w)) SplashPage] @ rest"
    by blast
  then show ?thesis by (simp add: freshWorld_def)
qed

text \<open>
  C3. When the status is \<open>docker_missing\<close>, the pass calls \<open>showDockerMissingDialog\<close> and
  then \<open>app.quit()\<close>, whichever button is pressed (button 0 opens the download page
  first); what the helper resolves with is dropped: any \<open>InstallAction\<close> leads to the same
  quit.
\<close>

theorem docker_missing_always_quits:
  assumes "loadReplies w = Resolves () # ls"
    and "stackReplies w = Resolves docker_missing # ss"
    and "boxReplies w = Resolves r # bs"
    and "r = 0 \<longrightarrow> externalReplies w = Resolves () # es"
  shows "bootstrapApp w = thenQuit (showDockerMissingDialog (probed w)) \<and>
         (\<forall>(a::InstallAction) v. thenQuit (Done a, v) = (Done (), appQuit v)) \<and>
         fst (bootstrapApp w) = Done () \<and>
         quitting (snd (bootstrapApp w)) \<and>
         log (snd (bootstrapApp w)) =
           log w @ [NewBrowserWindow (created w), LoadURL (created w) SplashPage, StartStack,
                    ShowMessageBox (missingBox (platformName w))] @
                   (if r = 0 then [OpenExternal getDockerDownloadUrl] else []) @ [AppQuit]"
proof -
  have eq: "bootstrapApp w = thenQuit (showDockerMissingDialog (probed w))"
    using assms(1,2) by (rule bootstrapApp_docker_missing)
  have "fst (bootstrapApp w) = Done ()" "quitting (snd (bootstrapApp w))"
    "log (snd (bootstrapApp w)) =
           log w @ [NewBrowserWindow (created w), LoadURL (created w) SplashPage, StartStack,
                    ShowMessageBox (missingBox (platformName w))] @
                   (if r = 0 then [OpenExternal getDockerDownloadUrl] else []) @ [AppQuit]"
    using assms(3,4)
    by (simp_all add: eq thenQuit_def showDockerMissingDialog_def showMessageBox_def
        openExternal_def settle_def emit_def Let_def appQuit_def probed_fields)
  moreover have "\<forall>(a::InstallAction) v. thenQuit (Done a, v) = (Done (), appQuit v)"
    by (simp add: thenQuit_def)
  ultimately show ?thesis using eq by blast
qed

theorem docker_missing_always_quits_witness:
  "quitting (snd (bootstrapApp (freshWorld ''win32'' [Resolves ()] [Resolves docker_missing]
       [Resolves 0] [Resolves ()] []))) \<and>
   quitting (snd (bootstrapApp (freshWorld ''win32'' [Resolves ()] [Resolves docker_missing]
       [Resolves 1] [] [])))"
proof -
  let ?a = "freshWorld ''win32'' [Resolves ()] [Resolves docker_missing] [Resolves 0] [Resolves ()] []"
  let ?b = "freshWorld ''win32'' [Resolves ()] [Resolves docker_missing] [Resolves 1] [] []"
  have a: "loadReplies ?a = Resolves () # []" "stackReplies ?a = Resolves docker_missing # []"
    "boxReplies ?a = Resolves 0 # []" "(0::nat) = 0 \<longrightarrow> externalReplies ?a = Resolves () # []"
    by (simp_all add: freshWorld_def)
  have b: "loadReplies ?b = Resolves () # []" "stackReplies ?b = Resolves docker_missing # []"
    "boxReplies ?b = Resolves 1 # []" "(1::nat) = 0 \<longrightarrow> externalReplies ?b = Resolves () # []"
    by (simp_all add: freshWorld_def)
  show ?thesis
    using docker_missing_always_quits [OF a] docker_missing_always_quits [OF b] by blast
qed

text \<open>
  C4. When the status is \<open>docker_daemon_off\<close> and the button pressed is not Retry, the pass
  quits, and \<open>waitForHttpReady\<close> is not called: no such call is logged and no answer of the
  prober is consumed.
\<close>

theorem daemon_off_quit_skips_probe:
  assumes "loadReplies w = Resolves () # ls"
    and "stackReplies w = Resolves docker_daemon_off # ss"
    and "boxReplies w = Resolves r # bs"
    and "r \<noteq> 0"
  shows "fst (bootstrapApp w) = Done () \<and>
         quitting (snd (bootstrapApp w)) \<and>
         log (snd (bootstrapApp w)) =
           log w @ [NewBrowserWindow (created w), LoadURL (created w) SplashPage, StartStack,
                    ShowMessageBox daemonOffBox, AppQuit] \<and>
         readyReplies (snd (bootstrapApp w)) = readyReplies w \<and>
         (\<forall>url. WaitForHttpReady url \<notin> set (drop (length (log w)) (log (snd (bootstrapApp w)))))"
  using assms
  by (simp add: bootstrapApp_docker_daemon_off showMessageBox_def settle_def emit_def Let_def
      appQuit_def probed_fields)

theorem daemon_off_quit_skips_probe_witness:
  "log (snd (bootstrapApp (freshWorld ''linux'' [Resolves ()] [Resolves docker_daemon_off]
       [Resolves 1] [] [Resolves True]))) =
     [NewBrowserWindow 0, LoadURL 0 SplashPage, StartStack, ShowMessageBox daemonOffBox, AppQuit] \<and>
   readyReplies (snd (bootstrapApp (freshWorld ''linux'' [Resolves ()] [Resolves docker_daemon_off]
       [Resolves 1] [] [Resolves True]))) = [Resolves True]"
proof -
  let ?w = "freshWorld ''linux'' [Resolves ()] [Resolves docker_daemon_off]
       [Resolves 1] [] [Resolves True]"
  have h: "loadReplies ?w = Resolves () # []" "stackReplies ?w = Resolves docker_daemon_off # []"
    "boxReplies ?w = Resolves 1 # []" "(1::nat) \<noteq> 0"
    by (simp_all add: freshWorld_def)
  from daemon_off_quit_skips_probe [OF h]
  have "log (snd (bootstrapApp ?w)) =
           log ?w @ [NewBrowserWindow (created ?w), LoadURL (created ?w) SplashPage, StartStack,
                    ShowMessageBox daemonOffBox, AppQuit]"
    "readyReplies (snd (bootstrapApp ?w)) = readyReplies ?w"
    by blast+
  then show ?thesis by (simp add: freshWorld_def)
qed

text \<open>
  C5. For every \<open>N\<close>, a run in which the user chooses Retry \<open>N\<close> times (and then the pass
  that follows is not retried) calls \<open>startStack\<close> exactly \<open>N\<close> more times than the one call
  of a run without retry.
\<close>

theorem retries_issue_one_start_each:
  assumes "loadReplies w = replicate N (Resolves ()) @ Resolves () # ls"
    and "stackReplies w = replicate N (Resolves docker_daemon_off) @ ss"
    and "boxReplies w = replicate N (Resolves 0) @ bs"
    and "\<not> (\<exists>ss' bs'. ss = Resolves docker_daemon_off # ss' \<and> bs = Resolves 0 # bs')"
  shows "count_list (log (snd (bootstrapApp w))) StartStack =
           count_list (log w) StartStack + 1 + N"
  using retries_tally [OF assms] by simp

theorem retries_issue_one_start_each_witness:
  "count_list (log (snd (bootstrapApp (freshWorld ''linux''
      [Resolves (), Resolves (), Resolves ()]
      [Resolves docker_daemon_off, Resolves docker_daemon_off, Resolves compose_error]
      [Resolves 0, Resolves 0] [] [])))) StartStack = 3"
proof -
  let ?w = "freshWorld ''linux'' [Resolves (), Resolves (), Resolves ()]
      [Resolves docker_daemon_off, Resolves docker_daemon_off, Resolves compose_error]
      [Resolves 0, Resolves 0] [] []"
  have h: "loadReplies ?w = replicate 2 (Resolves ()) @ Resolves () # []"
    "stackReplies ?w = replicate 2 (Resolves docker_daemon_off) @ [Resolves compose_error]"
    "boxReplies ?w = replicate 2 (Resolves 0) @ []"
    "\<not> (\<exists>ss' bs'. [Resolves compose_error] = Resolves docker_daemon_off # ss' \<and>
          ([]::nat reply list) = Resolves 0 # bs')"
    by (simp_all add: freshWorld_def numeral_2_eq_2)
  from retries_issue_one_start_each [OF h]
  show ?thesis by (simp add: freshWorld_def)
qed

text \<open>
  C6. When the status is \<open>Ready\<close> and the probe answers \<open>true\<close>, the window is asked to
  load \<open>APP_URL\<close> and, the load resolving, shows it; no error box is shown and the process
  is not asked to quit; a \<^verbatim>\<open>closed\<close> listener is registered on the window, and closing the
  window makes \<open>mainWindow\<close> null.
\<close>

theorem ready_and_responding_launches:
  assumes "loadReplies w = Resolves () # Resolves () # ls"
    and "stackReplies w = Resolves Ready # ss"
    and "readyReplies w = Resolves True # rs"
  shows "fst (bootstrapApp w) = Done () \<and>
         shown (snd (bootstrapApp w)) (created w) = Some (Url APP_URL) \<and>
         log (snd (bootstrapApp w)) =
           log w @ [NewBrowserWindow (created w), LoadURL (created w) SplashPage, StartStack,
                    WaitForHttpReady APP_URL, LoadURL (created w) (Url APP_URL),
                    OnClosed (created w)] \<and>
         (\<forall>t c. ShowErrorBox t c \<notin> set (drop (length (log w)) (log (snd (bootstrapApp w))))) \<and>
         quitting (snd (bootstrapApp w)) = quitting w \<and>
         mainWindow (snd (bootstrapApp w)) = Some (created w) \<and>
         closedHooks (snd (bootstrapApp w)) = closedHooks w @ [created w] \<and>
         mainWindow (closeWindow (created w) (snd (bootstrapApp w))) = None"
proof -
  define w4 where "w4 = snd (waitForHttpReady APP_URL (probed w))"
  define w5 where "w5 = snd (loadURL (created w) (Url APP_URL) w4)"
  define w6 where "w6 = emit (OnClosed (created w)) (w5\<lparr>closedHooks := closedHooks w5 @ [created w]\<rparr>)"
  have p: "waitForHttpReady APP_URL (probed w) = (Done True, w4)"
    using assms(3)
    by (simp add: w4_def waitForHttpReady_def settle_def emit_def Let_def probed_fields)
  have f4: "mainWindow w4 = Some (created w)" "loadReplies w4 = Resolves () # ls"
    "quitting w4 = quitting w" "closedHooks w4 = closedHooks w"
    "openWindows w4 = openWindows w @ [created w]"
    "log w4 = log w @ [NewBrowserWindow (created w), LoadURL (created w) SplashPage,
                       StartStack, WaitForHttpReady APP_URL]"
    using assms(1)
    by (simp_all add: w4_def waitForHttpReady_def emit_def Let_def probed_fields probed_queues
        split: prod.split)
  have l: "mainWindow_loadURL (Url APP_URL) w4 = (Done (), w5)"
    using f4(1,2) by (simp add: w5_def mainWindow_loadURL_def loadURL_def settle_def emit_def Let_def)
  have f5: "mainWindow w5 = Some (created w)" "quitting w5 = quitting w4"
    "closedHooks w5 = closedHooks w4" "openWindows w5 = openWindows w4"
    "log w5 = log w4 @ [LoadURL (created w) (Url APP_URL)]"
    "shown w5 (created w) = Some (Url APP_URL)"
    using f4(1,2) by (simp_all add: w5_def loadURL_def settle_def emit_def Let_def)
  have c: "mainWindow_onClosed w5 = (Done (), w6)"
    using f5(1) by (simp add: w6_def mainWindow_onClosed_def)
  have eq: "bootstrapApp w = (Done (), w6)"
    using assms(1,2) by (simp add: bootstrapApp_Ready p l c)
  have f6: "mainWindow w6 = Some (created w)" "quitting w6 = quitting w"
    "closedHooks w6 = closedHooks w @ [created w]" "openWindows w6 = openWindows w @ [created w]"
    "log w6 = log w @ [NewBrowserWindow (created w), LoadURL (created w) SplashPage,
                       StartStack, WaitForHttpReady APP_URL, LoadURL (created w) (Url APP_URL),
                       OnClosed (created w)]"
    "shown w6 (created w) = Some (Url APP_URL)"
    using f4 f5 by (simp_all add: w6_def emit_def)
  have cl: "mainWindow (closeWindow (created w) w6) = None"
    using f6(3,4)
    by (simp add: closeWindow_def onWindowAllClosed_def appQuit_def emit_def Let_def)
  show ?thesis
    using f6 cl by (simp add: eq)
qed

theorem ready_and_responding_launches_witness:
  "shown (snd (bootstrapApp (freshWorld ''linux'' [Resolves (), Resolves ()] [Resolves Ready] []
       [] [Resolves True]))) 0 = Some (Url APP_URL) \<and>
   log (snd (bootstrapApp (freshWorld ''linux'' [Resolves (), Resolves ()] [Resolves Ready] []
       [] [Resolves True]))) =
     [NewBrowserWindow 0, LoadURL 0 SplashPage, StartStack, WaitForHttpReady APP_URL,
      LoadURL 0 (Url APP_URL), OnClosed 0] \<and>
   mainWindow (closeWindow 0 (snd (bootstrapApp (freshWorld ''linux''
       [Resolves (), Resolves ()] [Resolves Ready] [] [] [Resolves True])))) = None"
proof -
  let ?w = "freshWorld ''linux'' [Resolves (), Resolves ()] [Resolves Ready] [] [] [Resolves True]"
  have h: "loadReplies ?w = Resolves () # Resolves () # []"
    "stackReplies ?w = Resolves Ready # []" "readyReplies ?w = Resolves True # []"
    by (simp_all add: freshWorld_def)
  have c: "created ?w = 0" "log ?w = []" by (simp_all add: freshWorld_def)
  from ready_and_responding_launches [OF h]
  show ?thesis unfolding c by simp
qed

text \<open>
  C7. When the status is \<open>Ready\<close> and the probe answers \<open>false\<close>, the error box
  \<^verbatim>\<open>Backend not responding\<close> is shown and the process is asked to quit; the window keeps
  the placeholder (no further load is requested), no prompt is shown and \<open>startStack\<close> is
  not called again.
\<close>

theorem ready_but_silent_quits:
  assumes "loadReplies w = Resolves () # ls"
    and "stackReplies w = Resolves Ready # ss"
    and "readyReplies w = Resolves False # rs"
  shows "fst (bootstrapApp w) = Done () \<and>
         quitting (snd (bootstrapApp w)) \<and>
         log (snd (bootstrapApp w)) =
           log w @ [NewBrowserWindow (created w), LoadURL (created w) SplashPage, StartStack,
                    WaitForHttpReady APP_URL,
                    ShowErrorBox ''Backend not responding''
                      (''The containers started, but the web server did not respond '' @
                       ''in time.''),
                    AppQuit] \<and>
         shown (snd (bootstrapApp w)) (created w) = Some SplashPage \<and>
         loadReplies (snd (bootstrapApp w)) = ls \<and>
         stackReplies (snd (bootstrapApp w)) = ss \<and>
         boxReplies (snd (bootstrapApp w)) = boxReplies w"
  using assms
  by (simp add: bootstrapApp_Ready waitForHttpReady_def showErrorBox_def settle_def emit_def
      Let_def appQuit_def probed_fields probed_queues)

theorem ready_but_silent_quits_witness:
  "log (snd (bootstrapApp (freshWorld ''linux'' [Resolves (), Resolves ()] [Resolves Ready]
       [Resolves 0] [] [Resolves False]))) =
     [NewBrowserWindow 0, LoadURL 0 SplashPage, StartStack, WaitForHttpReady APP_URL,
      ShowErrorBox ''Backend not responding''
        (''The containers started, but the web server did not respond '' @ ''in time.''),
      AppQuit] \<and>
   shown (snd (bootstrapApp (freshWorld ''linux'' [Resolves (), Resolves ()] [Resolves Ready]
       [Resolves 0] [] [Resolves False]))) 0 = Some SplashPage"
proof -
  let ?w = "freshWorld ''linux'' [Resolves (), Resolves ()] [Resolves Ready]
       [Resolves 0] [] [Resolves False]"
  have h: "loadReplies ?w = Resolves () # [Resolves ()]"
    "stackReplies ?w = Resolves Ready # []" "readyReplies ?w = Resolves False # []"
    by (simp_all add: freshWorld_def)
  have c: "created ?w = 0" "log ?w = []" by (simp_all add: freshWorld_def)
  from ready_but_silent_quits [OF h]
  show ?thesis unfolding c by simp
qed

text \<open>
  C8. Whenever a pass ends in an exception, the trigger that started it (\<^verbatim>\<open>ready\<close>, or
  \<^verbatim>\<open>activate\<close> with no window open) logs the error, shows the fixed notice
  \<^verbatim>\<open>Unexpected error\<close>, whose text does not mention the error, and asks the process to
  quit. A pass does end in an exception when a collaborator call it awaits rejects:
  \<open>startStack\<close>, \<open>waitForHttpReady\<close>, the Retry/Quit prompt, the prompt or the external
  link of the install helper, and either page load.
\<close>

theorem unexpected_error_caught_at_boundary:
  "(fst (bootstrapApp w) = Thrown e \<longrightarrow>
      log (onReady w) =
        log (snd (bootstrapApp w)) @
          [ConsoleError ''Bootstrap error:'' e,
           ShowErrorBox ''Unexpected error''
             ''Something went wrong while starting the Docker stack.'',
           AppQuit] \<and>
      quitting (onReady w) \<and>
      (length (openWindows w) = 0 \<longrightarrow> onActivate w = onReady w)) \<and>
   (loadReplies w = Resolves () # ls \<longrightarrow> stackReplies w = Rejects e # ss \<longrightarrow>
      fst (bootstrapApp w) = Thrown e) \<and>
   (loadReplies w = Resolves () # ls \<longrightarrow> stackReplies w = Resolves Ready # ss \<longrightarrow>
    readyReplies w = Rejects e # rs \<longrightarrow>
      fst (bootstrapApp w) = Thrown e) \<and>
   (loadReplies w = Resolves () # ls \<longrightarrow> stackReplies w = Resolves docker_daemon_off # ss \<longrightarrow>
    boxReplies w = Rejects e # bs \<longrightarrow>
      fst (bootstrapApp w) = Thrown e) \<and>
   (loadReplies w = Resolves () # ls \<longrightarrow> stackReplies w = Resolves docker_missing # ss \<longrightarrow>
    boxReplies w = Rejects e # bs \<or>
    boxReplies w = Resolves 0 # bs \<and> externalReplies w = Rejects e # es \<longrightarrow>
      fst (bootstrapApp w) = Thrown e) \<and>
   (loadReplies w = Rejects e # ls \<or>
    loadReplies w = Resolves () # Rejects e # ls \<and> stackReplies w = Resolves Ready # ss \<and>
    readyReplies w = Resolves True # rs \<longrightarrow>
      fst (bootstrapApp w) = Thrown e)"
proof (intro conjI impI)
  assume t: "fst (bootstrapApp w) = Thrown e"
  then have c: "onReady w = onBootstrapError e (snd (bootstrapApp w))"
    by (cases "bootstrapApp w") (simp add: onReady_def bootstrapCaught_def)
  show "log (onReady w) =
        log (snd (bootstrapApp w)) @
          [ConsoleError ''Bootstrap error:'' e,
           ShowErrorBox ''Unexpected error''
             ''Something went wrong while starting the Docker stack.'',
           AppQuit]"
    by (simp add: c onBootstrapError_def appQuit_def showErrorBox_def consoleError_def emit_def)
  show "quitting (onReady w)"
    by (simp add: c onBootstrapError_def appQuit_def showErrorBox_def consoleError_def emit_def)
next
  assume "length (openWindows w) = 0"
  then show "onActivate w = onReady w" by (simp add: onActivate_def onReady_def)
next
  assume "loadReplies w = Resolves () # ls" "stackReplies w = Rejects e # ss"
  then show "fst (bootstrapApp w) = Thrown e" by (simp add: bootstrapApp_stack_rejects)
next
  assume "loadReplies w = Resolves () # ls" "stackReplies w = Resolves Ready # ss"
    "readyReplies w = Rejects e # rs"
  then show "fst (bootstrapApp w) = Thrown e"
    by (simp add: bootstrapApp_Ready waitForHttpReady_def settle_def emit_def Let_def
        probed_fields)
next
  assume "loadReplies w = Resolves () # ls" "stackReplies w = Resolves docker_daemon_off # ss"
    "boxReplies w = Rejects e # bs"
  then show "fst (bootstrapApp w) = Thrown e"
    by (simp add: bootstrapApp_docker_daemon_off showMessageBox_def settle_def emit_def Let_def
        probed_fields)
next
  assume "loadReplies w = Resolves () # ls" "stackReplies w = Resolves docker_missing # ss"
    "boxReplies w = Rejects e # bs \<or>
     boxReplies w = Resolves 0 # bs \<and> externalReplies w = Rejects e # es"
  then show "fst (bootstrapApp w) = Thrown e"
    by (auto simp add: bootstrapApp_docker_missing thenQuit_def showDockerMissingDialog_def
        showMessageBox_def openExternal_def settle_def emit_def Let_def probed_fields)
next
  assume "loadReplies w = Rejects e # ls \<or>
    loadReplies w = Resolves () # Rejects e # ls \<and> stackReplies w = Resolves Ready # ss \<and>
    readyReplies w = Resolves True # rs"
  then show "fst (bootstrapApp w) = Thrown e"
  proof
    assume "loadReplies w = Rejects e # ls"
    then show ?thesis by (simp add: bootstrapApp_load_rejects)
  next
    assume "loadReplies w = Resolves () # Rejects e # ls \<and>
      stackReplies w = Resolves Ready # ss \<and> readyReplies w = Resolves True # rs"
    then show ?thesis
      by (simp add: bootstrapApp_Ready waitForHttpReady_def mainWindow_loadURL_def loadURL_def
          settle_def emit_def Let_def probed_fields probed_queues)
  qed
qed

theorem unexpected_error_caught_at_boundary_witness:
  "log (onReady (freshWorld ''linux'' [Resolves ()] [Rejects ''spawn EACCES''] [] [] [])) =
     [NewBrowserWindow 0, LoadURL 0 SplashPage, StartStack,
      ConsoleError ''Bootstrap error:'' ''spawn EACCES'',
      ShowErrorBox ''Unexpected error'' ''Something went wrong while starting the Docker stack.'',
      AppQuit] \<and>
   quitting (onReady (freshWorld ''linux'' [Resolves ()] [Rejects ''spawn EACCES''] [] [] [])) \<and>
   onActivate (freshWorld ''linux'' [Resolves ()] [Rejects ''spawn EACCES''] [] [] []) =
     onReady (freshWorld ''linux'' [Resolves ()] [Rejects ''spawn EACCES''] [] [] [])"
proof -
  let ?w = "freshWorld ''linux'' [Resolves ()] [Rejects ''spawn EACCES''] [] [] []"
  note inst = unexpected_error_caught_at_boundary [of ?w "''spawn EACCES''" "[]" "[]" "[]" "[]" "[]"]
  have h: "loadReplies ?w = Resolves () # []" "stackReplies ?w = Rejects ''spawn EACCES'' # []"
    "length (openWindows ?w) = 0"
    by (simp_all add: freshWorld_def)
  have t: "fst (bootstrapApp ?w) = Thrown ''spawn EACCES''"
    using inst h by blast
  have l: "log (snd (bootstrapApp ?w)) = [NewBrowserWindow 0, LoadURL 0 SplashPage, StartStack]"
    using h(1,2) by (simp add: bootstrapApp_stack_rejects probed_fields) (simp add: freshWorld_def)
  from inst t h(3) have "log (onReady ?w) =
        log (snd (bootstrapApp ?w)) @
          [ConsoleError ''Bootstrap error:'' ''spawn EACCES'',
           ShowErrorBox ''Unexpected error''
             ''Something went wrong while starting the Docker stack.'',
           AppQuit]" "quitting (onReady ?w)" "onActivate ?w = onReady ?w"
    by blast+
  then show ?thesis by (simp add: l)
qed

text \<open>
  C9, as stated, fails. The \<^verbatim>\<open>activate\<close> trigger fires with no window open; the daemon is
  off, the user retries, and the second attempt succeeds: two windows have been created and
  \<open>startStack\<close> has been called twice.
\<close>

theorem activate_one_window_counterexample:
  "openWindows (freshWorld ''darwin'' [Resolves (), Resolves (), Resolves ()]
      [Resolves docker_daemon_off, Resolves Ready] [Resolves 0] [] [Resolves True]) = [] \<and>
   openWindows (onActivate (freshWorld ''darwin'' [Resolves (), Resolves (), Resolves ()]
      [Resolves docker_daemon_off, Resolves Ready] [Resolves 0] [] [Resolves True])) = [0, 1] \<and>
   log (onActivate (freshWorld ''darwin'' [Resolves (), Resolves (), Resolves ()]
      [Resolves docker_daemon_off, Resolves Ready] [Resolves 0] [] [Resolves True])) =
     [NewBrowserWindow 0, LoadURL 0 SplashPage, StartStack, ShowMessageBox daemonOffBox,
      NewBrowserWindow 1, LoadURL 1 SplashPage, StartStack, WaitForHttpReady APP_URL,
      LoadURL 1 (Url APP_URL), OnClosed 1]"
  by (simp add: eval_defs)

text \<open>
  C9, amended. The \<^verbatim>\<open>activate\<close> trigger does nothing while a window is open. With no window
  open it does what the \<^verbatim>\<open>ready\<close> trigger does, one call of \<open>bootstrapApp\<close>; that run
  creates one window and calls \<open>startStack\<close> once, plus one more window and one more call
  for each Retry the user chooses: exactly \<open>1 + N\<close> of each for \<open>N\<close> retries, so exactly one
  when the user never retries.
\<close>

theorem activate_runs_one_call:
  "(length (openWindows w) \<noteq> 0 \<longrightarrow> onActivate w = w) \<and>
   (length (openWindows w) = 0 \<longrightarrow>
    loadReplies w = replicate N (Resolves ()) @ Resolves () # ls \<longrightarrow>
    stackReplies w = replicate N (Resolves docker_daemon_off) @ ss \<longrightarrow>
    boxReplies w = replicate N (Resolves 0) @ bs \<longrightarrow>
    \<not> (\<exists>ss' bs'. ss = Resolves docker_daemon_off # ss' \<and> bs = Resolves 0 # bs') \<longrightarrow>
      onActivate w = onReady w \<and>
      created (onActivate w) = created w + 1 + N \<and>
      openWindows (onActivate w) = [created w ..< created w + 1 + N] \<and>
      count_list (log (onActivate w)) StartStack = count_list (log w) StartStack + 1 + N)"
proof (intro conjI impI)
  assume "length (openWindows w) \<noteq> 0"
  then show "onActivate w = w" by (simp add: onActivate_def)
next
  assume z: "length (openWindows w) = 0"
    and h: "loadReplies w = replicate N (Resolves ()) @ Resolves () # ls"
      "stackReplies w = replicate N (Resolves docker_daemon_off) @ ss"
      "boxReplies w = replicate N (Resolves 0) @ bs"
      "\<not> (\<exists>ss' bs'. ss = Resolves docker_daemon_off # ss' \<and> bs = Resolves 0 # bs')"
  have a: "onActivate w = bootstrapCaught w" using z by (simp add: onActivate_def)
  have q: "quiet 0 (snd (bootstrapApp w)) (bootstrapCaught w)" by (rule bootstrapCaught_quiet)
  show "onActivate w = onReady w" by (simp add: a onReady_def)
  show "created (onActivate w) = created w + 1 + N"
    using retries_tally [OF h] q by (simp add: a quiet_def)
  show "openWindows (onActivate w) = [created w ..< created w + 1 + N]"
    using retries_tally [OF h] q z by (simp add: a quiet_def)
  show "count_list (log (onActivate w)) StartStack = count_list (log w) StartStack + 1 + N"
    using retries_tally [OF h] q by (simp add: a quiet_def)
qed

theorem activate_runs_one_call_witness:
  "created (onActivate (freshWorld ''darwin'' [Resolves (), Resolves ()] [Resolves Ready] [] []
      [Resolves True])) = 1 \<and>
   openWindows (onActivate (freshWorld ''darwin'' [Resolves (), Resolves ()] [Resolves Ready] []
      [] [Resolves True])) = [0] \<and>
   count_list (log (onActivate (freshWorld ''darwin'' [Resolves (), Resolves ()]
      [Resolves Ready] [] [] [Resolves True]))) StartStack = 1 \<and>
   onActivate (closeWindow 0 (onActivate (freshWorld ''darwin'' [Resolves (), Resolves ()]
      [Resolves Ready] [] [] [Resolves True]))\<lparr>openWindows := [7]\<rparr>) =
     closeWindow 0 (onActivate (freshWorld ''darwin'' [Resolves (), Resolves ()]
      [Resolves Ready] [] [] [Resolves True]))\<lparr>openWindows := [7]\<rparr>"
proof -
  let ?w = "freshWorld ''darwin'' [Resolves (), Resolves ()] [Resolves Ready] [] [] [Resolves True]"
  let ?v = "closeWindow 0 (onActivate ?w)\<lparr>openWindows := [7]\<rparr>"
  have h: "length (openWindows ?w) = 0"
    "loadReplies ?w = replicate 0 (Resolves ()) @ Resolves () # [Resolves ()]"
    "stackReplies ?w = replicate 0 (Resolves docker_daemon_off) @ [Resolves Ready]"
    "boxReplies ?w = replicate 0 (Resolves 0) @ []"
    "\<not> (\<exists>ss' bs'. [Resolves Ready] = Resolves docker_daemon_off # ss' \<and>
          ([]::nat reply list) = Resolves 0 # bs')"
    by (simp_all add: freshWorld_def)
  have c: "created ?w = 0" "log ?w = []" by (simp_all add: freshWorld_def)
  have "created (onActivate ?w) = created ?w + 1 + 0 \<and>
      openWindows (onActivate ?w) = [created ?w ..< created ?w + 1 + 0] \<and>
      count_list (log (onActivate ?w)) StartStack = count_list (log ?w) StartStack + 1 + 0"
    using activate_runs_one_call [of ?w 0 "[Resolves ()]" "[Resolves Ready]" "[]"] h by blast
  then have 1: "created (onActivate ?w) = 1" "openWindows (onActivate ?w) = [0]"
    "count_list (log (onActivate ?w)) StartStack = 1"
    unfolding c by simp_all
  have "length (openWindows ?v) \<noteq> 0" by simp
  then have 2: "onActivate ?v = ?v"
    using activate_runs_one_call [of ?v] by blast
  show ?thesis using 1 2 by blast
qed

text \<open>
  C10. \<open>showDockerMissingDialog\<close> never resolves with \<open>retry\<close>. Whatever button the dialog
  resolves with, the helper resolves with \<open>quit\<close>; for button 0 it opens the download page
  first (the link opening) and still resolves with \<open>quit\<close>.
\<close>

theorem showDockerMissingDialog_returns_quit:
  "fst (showDockerMissingDialog w) \<noteq> Done retry \<and>
   (boxReplies w = Resolves r # bs \<longrightarrow> (r = 0 \<longrightarrow> externalReplies w = Resolves () # es) \<longrightarrow>
      fst (showDockerMissingDialog w) = Done quit \<and>
      log (snd (showDockerMissingDialog w)) =
        log w @ ShowMessageBox (missingBox (platformName w)) #
          (if r = 0 then [OpenExternal getDockerDownloadUrl] else []))"
  by (simp add: showDockerMissingDialog_def showMessageBox_def openExternal_def settle_def
      emit_def Let_def split: list.split reply.split)

theorem showDockerMissingDialog_returns_quit_witness:
  "showDockerMissingDialog (freshWorld ''darwin'' [] [] [Resolves 0] [Resolves ()] []) =
     (Done quit,
      freshWorld ''darwin'' [] [] [] [] []
        \<lparr>log := [ShowMessageBox (missingBox ''darwin''), OpenExternal getDockerDownloadUrl]\<rparr>) \<and>
   fst (showDockerMissingDialog (freshWorld ''darwin'' [] [] [Resolves 1] [Resolves ()] [])) =
     Done quit"
proof -
  let ?a = "freshWorld ''darwin'' [] [] [Resolves 0] [Resolves ()] []"
  let ?b = "freshWorld ''darwin'' [] [] [Resolves 1] [Resolves ()] []"
  have a: "boxReplies ?a = Resolves 0 # []" "(0::nat) = 0 \<longrightarrow> externalReplies ?a = Resolves () # []"
    by (simp_all add: freshWorld_def)
  have b: "boxReplies ?b = Resolves 1 # []" "(1::nat) = 0 \<longrightarrow> externalReplies ?b = Resolves () # []"
    by (simp_all add: freshWorld_def)
  have 1: "fst (showDockerMissingDialog ?a) = Done quit"
    using showDockerMissingDialog_returns_quit [of ?a 0 "[]" "[]"] a by blast
  have 2: "fst (showDockerMissingDialog ?b) = Done quit"
    using showDockerMissingDialog_returns_quit [of ?b 1 "[]" "[]"] b by blast
  have 3: "snd (showDockerMissingDialog ?a) =
      freshWorld ''darwin'' [] [] [] [] []
        \<lparr>log := [ShowMessageBox (missingBox ''darwin''), OpenExternal getDockerDownloadUrl]\<rparr>"
    by (simp add: eval_defs)
  show ?thesis using 1 2 3 by (simp add: prod_eq_iff)
qed

end
